theory Spec2Isabelle
  imports Complex_Main
begin

section \<open>Data model of selfdrive/ui/ui.cc\<close>

text \<open>
  The values the messages carry and the arithmetic on them are idealised: a
  \<open>float\<close> or \<open>double\<close> there is a \<^typ>\<open>real\<close>, without rounding or overflow.
  The one operation of the modelled code that leaves the finite values, the
  division of the projection, is modelled with the infinities and NaN of IEEE
  arithmetic, and so are the coordinates of a point on the screen. Counters and
  indices are \<^typ>\<open>int\<close> and \<^typ>\<open>nat\<close>, without the bounds of the machine types.
  A read past the end of a message list, a read of a variable that was never
  assigned, and a call that breaks a precondition of the C++ library have no
  defined result; the model returns \<open>None\<close> there.
\<close>

subsection \<open>Messages (cereal readers)\<close>

datatype OpenpilotState = DISABLED | PRE_ENABLED | ENABLED | SOFT_DISABLING | OVERRIDING

record ControlsState =
  getState :: OpenpilotState
  getEnabled :: bool

datatype CalStatus = UNCALIBRATED | CALIBRATED | INVALID | RECALIBRATING

record LiveCalibrationData =
  getRpyCalib :: "real list"
  getWideFromDeviceEuler :: "real list"
  getCalStatus :: CalStatus

record LeadData =
  getStatus :: bool
  getDRel :: real
  getYRel :: real

record RadarState =
  getLeadOne :: LeadData
  getLeadTwo :: LeadData

text \<open>\<open>XYZTData\<close>: a sampled trajectory, one list per coordinate.\<close>

record XYZTData =
  getX :: "real list"
  getY :: "real list"
  getZ :: "real list"

text \<open>
  The position trajectories of the two messages \<open>update_model\<close> receives:
  \<open>model.getPosition()\<close> and \<open>plan.getPosition()\<close>.
\<close>

record ModelDataV2 =
  getPosition :: XYZTData

record UiPlan =
  getPlanPosition :: XYZTData

subsection \<open>Vectors, matrices and Qt geometry\<close>

text \<open>\<open>vec3\<close> is \<open>float v[3]\<close>; \<open>mat3\<close> is \<open>float v[9]\<close>, row by row.\<close>

type_synonym vec3 = "real \<times> real \<times> real"
type_synonym mat3 = "vec3 \<times> vec3 \<times> vec3"

text \<open>
  \<open>qreal\<close>, the coordinate type of \<open>QPointF\<close>: a number, an infinity or NaN.
  A comparison with NaN is false.
\<close>

datatype qreal = Finite real | PosInf | NegInf | NaN

fun qreal_less :: "qreal \<Rightarrow> qreal \<Rightarrow> bool" where
  "qreal_less (Finite a) (Finite b) = (a < b)"
| "qreal_less (Finite a) PosInf = True"
| "qreal_less NegInf (Finite b) = True"
| "qreal_less NegInf PosInf = True"
| "qreal_less a b = False"

text \<open>
  The quotient of two finite values. A dividend of 0 over a divisor of 0 is NaN. The
  sign of a zero is not modelled: a divisor of 0 is read as \<open>+0.0\<close>, so that an
  infinite quotient has the sign of the dividend.
\<close>

definition qreal_div :: "real \<Rightarrow> real \<Rightarrow> qreal" where
  "qreal_div a b =
     (if b \<noteq> 0 then Finite (a / b)
      else if a = 0 then NaN
      else if 0 < a then PosInf
      else NegInf)"

record QPointF =
  xp :: qreal
  yp :: qreal

type_synonym QPolygonF = "QPointF list"

record QRectF =
  rect_xp :: real
  rect_yp :: real
  rect_w :: real
  rect_h :: real

text \<open>
  The camera intrinsics \<open>FCAM_INTRINSIC_MATRIX\<close> and \<open>ECAM_INTRINSIC_MATRIX\<close> are
  constants of ui.h; the functions that use them take them as a parameter.
\<close>

record CameraIntrinsics =
  FCAM_INTRINSIC_MATRIX :: mat3
  ECAM_INTRINSIC_MATRIX :: mat3

subsection \<open>UI state\<close>

datatype UIStatus =
  STATUS_DISENGAGED | STATUS_OVERRIDE | STATUS_ENGAGED | STATUS_LATERAL_ACTIVE

text \<open>
  The fields of \<open>UIScene\<close> that the modelled functions read and write. The array
  \<open>QPointF lead_vertices[2]\<close> is a function of the index.
\<close>

record UIScene =
  view_from_calib :: mat3
  view_from_wide_calib :: mat3
  calibration_valid :: bool
  calibration_wide_valid :: bool
  wide_cam :: bool
  lead_vertices :: "nat \<Rightarrow> QPointF"
  unlimited_road_ui_length :: bool
  light_sensor :: real
  screen_brightness :: int
  ignition :: bool
  started :: bool
  always_on_lateral_active :: bool
  started_frame :: nat

text \<open>
  \<open>SubMaster\<close>: the tick counter \<open>frame\<close>, the per-topic flag \<open>updated\<close>, and
  the latest message of each topic read here.
\<close>

record SubMaster =
  frame :: nat
  updated :: "string \<Rightarrow> bool"
  controlsState :: ControlsState
  liveCalibration :: LiveCalibrationData
  radarState :: RadarState

text \<open>
  \<open>car_space_transform\<close> is a \<open>QTransform\<close>, used only through \<open>map\<close>: the field
  is that map.
\<close>

record UIState =
  fb_w :: int
  fb_h :: int
  scene :: UIScene
  car_space_transform :: "QPointF \<Rightarrow> QPointF"
  sm :: SubMaster
  status :: UIStatus
  started_prev :: bool

text \<open>Qt signals, recorded in the order they are emitted.\<close>

datatype signal =
  OffroadTransition bool | DisplayPowerChanged bool | InteractiveTimeout

section \<open>UIState::updateStatus\<close>

text \<open>
  The first statement of \<open>updateStatus\<close>: the status derived from a fresh
  \<open>controlsState\<close> message while started.
\<close>

definition updateStatus_controls :: "UIState \<Rightarrow> UIState" where
  "updateStatus_controls s =
     (if started (scene s) \<and> updated (sm s) ''controlsState'' then
        (let controls_state = controlsState (sm s);
             state = getState controls_state
         in if state = PRE_ENABLED \<or> state = OVERRIDING then
              s\<lparr>status := STATUS_OVERRIDE\<rparr>
            else if always_on_lateral_active (scene s) then
              s\<lparr>status := STATUS_LATERAL_ACTIVE\<rparr>
            else
              s\<lparr>status := (if getEnabled controls_state then STATUS_ENGAGED
                             else STATUS_DISENGAGED)\<rparr>)
      else s)"

text \<open>
  The second statement: the onroad/offroad transition. The result is the new state
  and the signals emitted.
\<close>

definition updateStatus_transition :: "UIState \<Rightarrow> UIState \<times> signal list" where
  "updateStatus_transition s =
     (if started (scene s) \<noteq> started_prev s \<or> frame (sm s) = 1 then
        (let s1 = (if started (scene s) then
                     s\<lparr>status := STATUS_DISENGAGED,
                       scene := (scene s)\<lparr>started_frame := frame (sm s)\<rparr>\<rparr>
                   else s);
             s2 = s1\<lparr>started_prev := started (scene s1)\<rparr>
         in (s2, [OffroadTransition (\<not> started (scene s2))]))
      else (s, []))"

definition updateStatus :: "UIState \<Rightarrow> UIState \<times> signal list" where
  "updateStatus s = updateStatus_transition (updateStatus_controls s)"

section \<open>Projection and clipping\<close>

text \<open>
  Modelled from the spec: \<open>matvecmul3\<close> of common/mat.h, which is not under src/.
  The spec names it among the "3\<times>3 matrix/vector ops" of the geometry kernel; it is
  the product of a matrix with a column vector.
\<close>

definition matvecmul3 :: "mat3 \<Rightarrow> vec3 \<Rightarrow> vec3" where
  "matvecmul3 a b =
     (case a of ((a0, a1, a2), (a3, a4, a5), (a6, a7, a8)) \<Rightarrow>
      case b of (b0, b1, b2) \<Rightarrow>
        (a0 * b0 + a1 * b1 + a2 * b2,
         a3 * b0 + a4 * b1 + a5 * b2,
         a6 * b0 + a7 * b1 + a8 * b2))"

text \<open>
  \<open>QRectF::contains(const QPointF &)\<close> as Qt defines it: a rectangle of negative
  width or height is read from its other corner, and a rectangle of width or height
  0 contains nothing. The point is refused when a coordinate compares less than the
  lower side or greater than the upper side; a NaN coordinate does neither.
\<close>

definition QRectF_contains :: "QRectF \<Rightarrow> QPointF \<Rightarrow> bool" where
  "QRectF_contains rect p =
     (let l = (if rect_w rect < 0 then rect_xp rect + rect_w rect else rect_xp rect);
          r = (if rect_w rect < 0 then rect_xp rect else rect_xp rect + rect_w rect);
          t = (if rect_h rect < 0 then rect_yp rect + rect_h rect else rect_yp rect);
          b = (if rect_h rect < 0 then rect_yp rect else rect_yp rect + rect_h rect)
      in if l = r then False
         else if qreal_less (xp p) (Finite l) \<or> qreal_less (Finite r) (xp p) then False
         else if t = b then False
         else if qreal_less (yp p) (Finite t) \<or> qreal_less (Finite b) (yp p) then False
         else True)"

definition margin :: real where
  "margin = 500"

definition clip_region :: "UIState \<Rightarrow> QRectF" where
  "clip_region s =
     \<lparr>rect_xp = - margin, rect_yp = - margin,
      rect_w = real_of_int (fb_w s) + 2 * margin,
      rect_h = real_of_int (fb_h s) + 2 * margin\<rparr>"

text \<open>The point computed by the statement under the comment "Project.".\<close>

definition project :: "CameraIntrinsics \<Rightarrow> UIState \<Rightarrow> real \<Rightarrow> real \<Rightarrow> real \<Rightarrow> QPointF" where
  "project K s in_x in_y in_z =
     (let pt = (in_x, in_y, in_z);
          Ep = matvecmul3 (if wide_cam (scene s) then view_from_wide_calib (scene s)
                           else view_from_calib (scene s)) pt;
          KEp = matvecmul3 (if wide_cam (scene s) then ECAM_INTRINSIC_MATRIX K
                            else FCAM_INTRINSIC_MATRIX K) Ep
      in case KEp of (k0, k1, k2) \<Rightarrow>
           car_space_transform s \<lparr>xp = qreal_div k0 k2, yp = qreal_div k1 k2\<rparr>)"

text \<open>
  \<open>calib_frame_to_full_frame\<close>: the last argument is the value \<open>*out\<close> has before the
  call; the result is the returned flag and the value \<open>*out\<close> has after it.
\<close>

definition calib_frame_to_full_frame ::
  "CameraIntrinsics \<Rightarrow> UIState \<Rightarrow> real \<Rightarrow> real \<Rightarrow> real \<Rightarrow> QPointF \<Rightarrow> bool \<times> QPointF" where
  "calib_frame_to_full_frame K s in_x in_y in_z out =
     (let point = project K s in_x in_y in_z
      in if QRectF_contains (clip_region s) point then (True, point)
         else (False, out))"

section \<open>Path length index and lead markers\<close>

text \<open>
  The \<open>for\<close> loop of \<open>get_path_length_idx\<close>, from the loop variable \<open>i\<close> and the
  current \<open>max_idx\<close>. \<open>TRAJECTORY_SIZE\<close> is a constant of ui.h and a parameter here.
\<close>

function get_path_length_idx_loop ::
  "nat \<Rightarrow> real list \<Rightarrow> real \<Rightarrow> nat \<Rightarrow> nat \<Rightarrow> nat option" where
  "get_path_length_idx_loop TRAJECTORY_SIZE line_x path_height i max_idx =
     (if i < TRAJECTORY_SIZE then
        (if i < length line_x then
           (if line_x ! i \<le> path_height then
              get_path_length_idx_loop TRAJECTORY_SIZE line_x path_height (i + 1) i
            else Some max_idx)
         else None)
      else Some max_idx)"
  by pat_completeness auto
termination
  by (relation "measure (\<lambda>(n, line_x, path_height, i, max_idx). n - i)") auto

declare get_path_length_idx_loop.simps [simp del]

definition get_path_length_idx :: "nat \<Rightarrow> XYZTData \<Rightarrow> real \<Rightarrow> nat option" where
  "get_path_length_idx TRAJECTORY_SIZE line path_height =
     get_path_length_idx_loop TRAJECTORY_SIZE (getX line) path_height 1 0"

text \<open>One iteration of the loop of \<open>update_leads\<close>, for the index \<open>i\<close>.\<close>

definition update_leads_iteration ::
  "CameraIntrinsics \<Rightarrow> nat \<Rightarrow> RadarState \<Rightarrow> XYZTData \<Rightarrow> nat \<Rightarrow> UIState \<Rightarrow> UIState option" where
  "update_leads_iteration K TRAJECTORY_SIZE radar_state line i s =
     (let lead_data = (if i = 0 then getLeadOne radar_state else getLeadTwo radar_state)
      in if getStatus lead_data then
           (case get_path_length_idx TRAJECTORY_SIZE line (getDRel lead_data) of
              None \<Rightarrow> None
            | Some idx \<Rightarrow>
                if idx < length (getZ line) then
                  (let z = getZ line ! idx;
                       res = calib_frame_to_full_frame K s (getDRel lead_data)
                               (- getYRel lead_data) (z + 1.22) (lead_vertices (scene s) i)
                   in Some (s\<lparr>scene := (scene s)
                              \<lparr>lead_vertices := (lead_vertices (scene s))(i := snd res)\<rparr>\<rparr>))
                else None)
         else Some s)"

definition update_leads ::
  "CameraIntrinsics \<Rightarrow> nat \<Rightarrow> RadarState \<Rightarrow> XYZTData \<Rightarrow> UIState \<Rightarrow> UIState option" where
  "update_leads K TRAJECTORY_SIZE radar_state line s =
     (case update_leads_iteration K TRAJECTORY_SIZE radar_state line 0 s of
        None \<Rightarrow> None
      | Some s1 \<Rightarrow> update_leads_iteration K TRAJECTORY_SIZE radar_state line 1 s1)"

section \<open>Polygon builder\<close>

text \<open>
  The \<open>for\<close> loop of \<open>update_line_data\<close>, from the loop variable \<open>i\<close> and the two
  point lists. \<open>push_back\<close> appends, \<open>push_front\<close> prepends. The locals \<open>left\<close> and
  \<open>right\<close> are default-constructed, the point (0, 0), before each pair of calls.
\<close>

function update_line_data_loop ::
  "CameraIntrinsics \<Rightarrow> UIState \<Rightarrow> XYZTData \<Rightarrow> real \<Rightarrow> real \<Rightarrow> int \<Rightarrow> bool \<Rightarrow> nat \<Rightarrow>
   QPolygonF \<times> QPolygonF \<Rightarrow> (QPolygonF \<times> QPolygonF) option" where
  "update_line_data_loop K s line y_off z_off max_idx allow_invert i pts =
     (if int i \<le> max_idx then
        (if i < length (getX line) then
           (if getX line ! i < 0 then
              update_line_data_loop K s line y_off z_off max_idx allow_invert (i + 1) pts
            else if i < length (getY line) \<and> i < length (getZ line) then
              (let l = calib_frame_to_full_frame K s (getX line ! i)
                         (getY line ! i - y_off) (getZ line ! i + z_off)
                         \<lparr>xp = Finite 0, yp = Finite 0\<rparr>;
                   r = calib_frame_to_full_frame K s (getX line ! i)
                         (getY line ! i + y_off) (getZ line ! i + z_off)
                         \<lparr>xp = Finite 0, yp = Finite 0\<rparr>;
                   left = snd l; right = snd r;
                   left_points = fst pts; right_points = snd pts
               in if fst l \<and> fst r then
                    (if \<not> allow_invert \<and> left_points \<noteq> []
                        \<and> qreal_less (yp (last left_points)) (yp left) then
                       update_line_data_loop K s line y_off z_off max_idx allow_invert
                         (i + 1) pts
                     else
                       update_line_data_loop K s line y_off z_off max_idx allow_invert
                         (i + 1) (left_points @ [left], right # right_points))
                  else
                    update_line_data_loop K s line y_off z_off max_idx allow_invert
                      (i + 1) pts)
            else None)
         else None)
      else Some pts)"
  by pat_completeness auto
termination
  by (relation "measure (\<lambda>(K, s, line, y_off, z_off, max_idx, allow_invert, i, pts).
         nat (max_idx + 1 - int i))") auto

declare update_line_data_loop.simps [simp del]

text \<open>The two point lists at the end of the loop, and the polygon stored in \<open>*pvd\<close>.\<close>

definition update_line_data_points ::
  "CameraIntrinsics \<Rightarrow> UIState \<Rightarrow> XYZTData \<Rightarrow> real \<Rightarrow> real \<Rightarrow> int \<Rightarrow> bool \<Rightarrow>
   (QPolygonF \<times> QPolygonF) option" where
  "update_line_data_points K s line y_off z_off max_idx allow_invert =
     update_line_data_loop K s line y_off z_off max_idx allow_invert 0 ([], [])"

definition update_line_data ::
  "CameraIntrinsics \<Rightarrow> UIState \<Rightarrow> XYZTData \<Rightarrow> real \<Rightarrow> real \<Rightarrow> int \<Rightarrow> bool \<Rightarrow> QPolygonF option" where
  "update_line_data K s line y_off z_off max_idx allow_invert =
     (case update_line_data_points K s line y_off z_off max_idx allow_invert of
        None \<Rightarrow> None
      | Some (left_points, right_points) \<Rightarrow> Some (left_points @ right_points))"

section \<open>update\_model: the draw distance of the path\<close>

text \<open>
  \<open>std::clamp(v, lo, hi)\<close>: the standard leaves the call undefined when \<open>hi < lo\<close>;
  otherwise its value is \<open>v < lo ? lo : hi < v ? hi : v\<close>.
\<close>

definition std_clamp :: "real \<Rightarrow> real \<Rightarrow> real \<Rightarrow> real option" where
  "std_clamp v lo hi =
     (if hi < lo then None
      else Some (if v < lo then lo else if hi < v then hi else v))"

text \<open>
  The statements of \<open>update_model\<close> that decide how far the path is drawn: the choice
  of \<open>plan_position\<close>, \<open>max_distance\<close>, its reduction behind a lead, and the
  \<open>max_idx\<close> of the path. The statements between them fill the lane-line and
  road-edge polygons and do not write \<open>max_distance\<close>. \<open>MIN_DRAW_DISTANCE\<close> and
  \<open>MAX_DRAW_DISTANCE\<close> are constants of ui.h and parameters here.
\<close>

definition update_model_plan_position :: "nat \<Rightarrow> ModelDataV2 \<Rightarrow> UiPlan \<Rightarrow> XYZTData" where
  "update_model_plan_position TRAJECTORY_SIZE model plan =
     (if length (getX (getPlanPosition plan)) < TRAJECTORY_SIZE then getPosition model
      else getPlanPosition plan)"

definition update_model_max_distance ::
  "nat \<Rightarrow> real \<Rightarrow> real \<Rightarrow> UIState \<Rightarrow> XYZTData \<Rightarrow> real option" where
  "update_model_max_distance TRAJECTORY_SIZE MIN_DRAW_DISTANCE MAX_DRAW_DISTANCE s
       plan_position =
     (if 0 < TRAJECTORY_SIZE \<and> TRAJECTORY_SIZE - 1 < length (getX plan_position) then
        (if unlimited_road_ui_length (scene s) then
           Some (getX plan_position ! (TRAJECTORY_SIZE - 1))
         else std_clamp (getX plan_position ! (TRAJECTORY_SIZE - 1))
                MIN_DRAW_DISTANCE MAX_DRAW_DISTANCE)
      else None)"

text \<open>The statements under the comment "update path", up to the new \<open>max_distance\<close>.\<close>

definition update_model_lead_distance :: "UIState \<Rightarrow> real \<Rightarrow> real option" where
  "update_model_lead_distance s max_distance =
     (let lead_one = getLeadOne (radarState (sm s))
      in if getStatus lead_one then
           (let lead_d = getDRel lead_one * 2
            in std_clamp (lead_d - min (lead_d * 0.35) 10) 0 max_distance)
         else Some max_distance)"

text \<open>The \<open>max_distance\<close> and the \<open>max_idx\<close> the path polygons are built with.\<close>

definition update_model_path_idx ::
  "nat \<Rightarrow> real \<Rightarrow> real \<Rightarrow> UIState \<Rightarrow> ModelDataV2 \<Rightarrow> UiPlan \<Rightarrow> (real \<times> nat) option" where
  "update_model_path_idx TRAJECTORY_SIZE MIN_DRAW_DISTANCE MAX_DRAW_DISTANCE s model plan =
     (let plan_position = update_model_plan_position TRAJECTORY_SIZE model plan
      in case update_model_max_distance TRAJECTORY_SIZE MIN_DRAW_DISTANCE
                MAX_DRAW_DISTANCE s plan_position of
           None \<Rightarrow> None
         | Some max_distance \<Rightarrow>
             (case update_model_lead_distance s max_distance of
                None \<Rightarrow> None
              | Some max_distance' \<Rightarrow>
                  (case get_path_length_idx TRAJECTORY_SIZE plan_position max_distance' of
                     None \<Rightarrow> None
                   | Some max_idx \<Rightarrow> Some (max_distance', max_idx))))"

section \<open>update\_state: the calibration message\<close>

text \<open>The product of two \<open>Eigen::Matrix3d\<close>.\<close>

definition rowmul3 :: "vec3 \<Rightarrow> mat3 \<Rightarrow> vec3" where
  "rowmul3 r b =
     (case r of (r0, r1, r2) \<Rightarrow>
      case b of ((b0, b1, b2), (b3, b4, b5), (b6, b7, b8)) \<Rightarrow>
        (r0 * b0 + r1 * b3 + r2 * b6,
         r0 * b1 + r1 * b4 + r2 * b7,
         r0 * b2 + r1 * b5 + r2 * b8))"

definition matmul3 :: "mat3 \<Rightarrow> mat3 \<Rightarrow> mat3" where
  "matmul3 a b = (case a of (a0, a1, a2) \<Rightarrow> (rowmul3 a0 b, rowmul3 a1 b, rowmul3 a2 b))"

definition view_from_device :: mat3 where
  "view_from_device = ((0, 1, 0), (0, 0, 1), (1, 0, 0))"

text \<open>
  The block of \<open>update_state\<close> for the topic \<open>liveCalibration\<close>. \<open>euler2rot\<close> is a
  function of common/transformations and a parameter here. The vectors \<open>rpy\<close> and
  \<open>wfde\<close> are declared without an initial value and assigned only from a list of 3
  elements: \<open>None\<close> stands for a vector that was never assigned, and the call of
  \<open>euler2rot\<close> that reads it has no defined result.
\<close>

definition update_state_liveCalibration ::
  "(vec3 \<Rightarrow> mat3) \<Rightarrow> UIState \<Rightarrow> UIState option" where
  "update_state_liveCalibration euler2rot s =
     (if updated (sm s) ''liveCalibration'' then
        (let live_calib = liveCalibration (sm s);
             rpy_list = getRpyCalib live_calib;
             wfde_list = getWideFromDeviceEuler live_calib;
             rpy = (if length rpy_list = 3
                    then Some (rpy_list ! 0, rpy_list ! 1, rpy_list ! 2) else None);
             wfde = (if length wfde_list = 3
                     then Some (wfde_list ! 0, wfde_list ! 1, wfde_list ! 2) else None)
         in case rpy of
              None \<Rightarrow> None
            | Some rpy_v \<Rightarrow>
                (case wfde of
                   None \<Rightarrow> None
                 | Some wfde_v \<Rightarrow>
                     (let device_from_calib = euler2rot rpy_v;
                          wide_from_device = euler2rot wfde_v;
                          view_from_calib' = matmul3 view_from_device device_from_calib;
                          view_from_wide_calib' =
                            matmul3 (matmul3 view_from_device wide_from_device)
                              device_from_calib
                      in Some (s\<lparr>scene := (scene s)
                           \<lparr>view_from_calib := view_from_calib',
                            view_from_wide_calib := view_from_wide_calib',
                            calibration_valid := (getCalStatus live_calib = CALIBRATED),
                            calibration_wide_valid := (length wfde_list = 3)\<rparr>\<rparr>))))
      else Some s)"

section \<open>Device: brightness and wakefulness\<close>

text \<open>
  The members of \<open>Device\<close>. \<open>brightness_filter\<close> is the value the
  \<open>FirstOrderFilter\<close> holds; \<open>brightness_future\<close> is the task the \<open>QFuture\<close> refers
  to, \<open>None\<close> for the default-constructed future.
\<close>

record Device =
  awake :: bool
  interactive_timeout :: int
  ignition_on :: bool
  offroad_brightness :: real
  last_brightness :: int
  brightness_filter :: real
  brightness_future :: "nat option"

text \<open>
  The thread pool behind \<open>QtConcurrent::run\<close>: every call of
  \<open>Hardware::set_brightness\<close> started so far, in order, with its argument, and the
  set of those that have not returned yet. A task is named by its position in
  \<open>started_tasks\<close>.
\<close>

record ThreadPool =
  started_tasks :: "int list"
  running_tasks :: "nat set"

definition isRunning :: "ThreadPool \<Rightarrow> nat option \<Rightarrow> bool" where
  "isRunning pool future =
     (case future of None \<Rightarrow> False | Some task \<Rightarrow> task \<in> running_tasks pool)"

definition QtConcurrent_run :: "int \<Rightarrow> ThreadPool \<Rightarrow> nat \<times> ThreadPool" where
  "QtConcurrent_run brightness pool =
     (length (started_tasks pool),
      pool\<lparr>started_tasks := started_tasks pool @ [brightness],
           running_tasks := insert (length (started_tasks pool)) (running_tasks pool)\<rparr>)"

text \<open>A running call of \<open>Hardware::set_brightness\<close> returns.\<close>

definition task_finished :: "nat \<Rightarrow> ThreadPool \<Rightarrow> ThreadPool" where
  "task_finished task pool = pool\<lparr>running_tasks := running_tasks pool - {task}\<rparr>"

text \<open>What the device does besides changing its members.\<close>

datatype effect = Set_display_power bool | Emit signal

definition setAwake :: "bool \<Rightarrow> Device \<Rightarrow> Device \<times> effect list" where
  "setAwake on d =
     (if on \<noteq> awake d then
        (d\<lparr>awake := on\<rparr>, [Set_display_power on, Emit (DisplayPowerChanged on)])
      else (d, []))"

text \<open>
  \<open>UI_FREQ\<close> is a constant of ui.h and a parameter here. A call of
  \<open>resetInteractiveTimeout\<close> without argument passes the default of its declaration,
  \<open>-1\<close>.
\<close>

definition resetInteractiveTimeout :: "int \<Rightarrow> int \<Rightarrow> Device \<Rightarrow> Device" where
  "resetInteractiveTimeout UI_FREQ timeout d =
     (let timeout' = (if timeout = - 1 then (if ignition_on d then 10 else 30) else timeout)
      in d\<lparr>interactive_timeout := timeout' * UI_FREQ\<rparr>)"

text \<open>The conversion of a \<open>float\<close> to \<open>int\<close>: towards zero.\<close>

definition float_to_int :: "real \<Rightarrow> int" where
  "float_to_int x = (if 0 \<le> x then \<lfloor>x\<rfloor> else \<lceil>x\<rceil>)"

text \<open>The value of the local \<open>clipped_brightness\<close> when the filter is called.\<close>

definition clipped_brightness :: "UIState \<Rightarrow> Device \<Rightarrow> real" where
  "clipped_brightness s d =
     (if started (scene s) then
        (let c0 = light_sensor (scene s);
             c1 = (if c0 \<le> 8 then c0 / 903.3 else ((c0 + 16.0) / 116.0) ^ 3);
             c2 = 100 * c1
         in if c2 < 10 then 10 else if 100 < c2 then 100 else c2)
      else offroad_brightness d)"

text \<open>
  The value of the local \<open>brightness\<close> when it is compared with \<open>last_brightness\<close>;
  \<open>filtered\<close> is what \<open>brightness_filter.update\<close> returned.
\<close>

definition brightness_value :: "UIState \<Rightarrow> Device \<Rightarrow> real \<Rightarrow> int" where
  "brightness_value s d filtered =
     (if \<not> awake d then 0
      else if screen_brightness (scene s) \<le> 100 then max 5 (screen_brightness (scene s))
      else float_to_int filtered)"

text \<open>
  \<open>Device::updateBrightness\<close>. \<open>FirstOrderFilter::update\<close> is a function of
  common/util.h and a parameter here: from the value held and the input to the new
  value held, which it returns.
\<close>

definition updateBrightness ::
  "(real \<Rightarrow> real \<Rightarrow> real) \<Rightarrow> UIState \<Rightarrow> Device \<times> ThreadPool \<Rightarrow> Device \<times> ThreadPool" where
  "updateBrightness filter_update s dp =
     (let d = fst dp; pool = snd dp;
          filtered = filter_update (brightness_filter d) (clipped_brightness s d);
          d1 = d\<lparr>brightness_filter := filtered\<rparr>;
          brightness = brightness_value s d1 filtered
      in if brightness \<noteq> last_brightness d1 then
           (if \<not> isRunning pool (brightness_future d1) then
              (let started = QtConcurrent_run brightness pool
               in (d1\<lparr>brightness_future := Some (fst started),
                      last_brightness := brightness\<rparr>, snd started))
            else (d1, pool))
         else (d1, pool))"

definition updateWakefulness :: "int \<Rightarrow> UIState \<Rightarrow> Device \<Rightarrow> Device \<times> effect list" where
  "updateWakefulness UI_FREQ s d =
     (let ignition_just_turned_off = (\<not> ignition (scene s) \<and> ignition_on d);
          d1 = d\<lparr>ignition_on := ignition (scene s)\<rparr>;
          r2 = (if ignition_just_turned_off then
                  (resetInteractiveTimeout UI_FREQ (- 1) d1, [])
                else if interactive_timeout d1 > 0 then
                  (let d' = d1\<lparr>interactive_timeout := interactive_timeout d1 - 1\<rparr>
                   in (d', if interactive_timeout d' = 0 then [Emit InteractiveTimeout]
                           else []))
                else (d1, []));
          d2 = fst r2;
          r3 = (if screen_brightness (scene s) \<noteq> 0 then
                  setAwake (ignition (scene s) \<or> interactive_timeout d2 > 0) d2
                else setAwake (interactive_timeout d2 > 0) d2)
      in (fst r3, snd r2 @ snd r3))"

text \<open>
  What happens to a device over time: calls of the two update functions, in any
  order, and returns of brightness writes.
\<close>

datatype event =
  UpdateBrightness UIState | UpdateWakefulness UIState | WriteFinished nat

fun device_step ::
  "int \<Rightarrow> (real \<Rightarrow> real \<Rightarrow> real) \<Rightarrow> Device \<times> ThreadPool \<Rightarrow> event \<Rightarrow> Device \<times> ThreadPool" where
  "device_step UI_FREQ filter_update dp (UpdateBrightness s) =
     updateBrightness filter_update s dp"
| "device_step UI_FREQ filter_update dp (UpdateWakefulness s) =
     (fst (updateWakefulness UI_FREQ s (fst dp)), snd dp)"
| "device_step UI_FREQ filter_update dp (WriteFinished task) =
     (fst dp, task_finished task (snd dp))"

definition device_run ::
  "int \<Rightarrow> (real \<Rightarrow> real \<Rightarrow> real) \<Rightarrow> Device \<times> ThreadPool \<Rightarrow> event list \<Rightarrow> Device \<times> ThreadPool" where
  "device_run UI_FREQ filter_update dp evs = foldl (device_step UI_FREQ filter_update) dp evs"

text \<open>At most the task of \<open>brightness_future\<close> is running.\<close>

definition single_flight :: "Device \<times> ThreadPool \<Rightarrow> bool" where
  "single_flight dp = (running_tasks (snd dp) \<subseteq> set_option (brightness_future (fst dp)))"

text \<open>A run of \<open>updateWakefulness\<close>, one call per scene of the list.\<close>

definition wakefulness_run :: "int \<Rightarrow> UIState list \<Rightarrow> Device \<Rightarrow> Device" where
  "wakefulness_run UI_FREQ ss d = foldl (\<lambda>d s. fst (updateWakefulness UI_FREQ s d)) d ss"

text \<open>
  No call of the run sees the ignition go off: \<open>on\<close> is the member \<open>ignition_on\<close>
  before the first call.
\<close>

fun no_ignition_off_edge :: "bool \<Rightarrow> UIState list \<Rightarrow> bool" where
  "no_ignition_off_edge on [] = True"
| "no_ignition_off_edge on (s # ss) =
     (\<not> (\<not> ignition (scene s) \<and> on) \<and> no_ignition_off_edge (ignition (scene s)) ss)"

section \<open>Example data\<close>

text \<open>A state on the tick of a start edge, with a fresh PRE_ENABLED message.\<close>

definition example_scene :: UIScene where
  "example_scene =
     \<lparr>view_from_calib = ((0, 1, 0), (0, 0, 1), (1, 0, 0)),
      view_from_wide_calib = ((0, 1, 0), (0, 0, 1), (1, 0, 0)),
      calibration_valid = False, calibration_wide_valid = False, wide_cam = False,
      lead_vertices = (\<lambda>i. \<lparr>xp = Finite 0, yp = Finite 0\<rparr>),
      unlimited_road_ui_length = False, light_sensor = 0, screen_brightness = 101,
      ignition = True, started = True, always_on_lateral_active = False,
      started_frame = 0\<rparr>"

definition example_lead :: LeadData where
  "example_lead = \<lparr>getStatus = False, getDRel = 0, getYRel = 0\<rparr>"

definition example_sm :: SubMaster where
  "example_sm =
     \<lparr>frame = 7, updated = (\<lambda>topic. topic = ''controlsState''),
      controlsState = \<lparr>getState = PRE_ENABLED, getEnabled = True\<rparr>,
      liveCalibration = \<lparr>getRpyCalib = [], getWideFromDeviceEuler = [0, 0, 0],
                         getCalStatus = CALIBRATED\<rparr>,
      radarState = \<lparr>getLeadOne = example_lead, getLeadTwo = example_lead\<rparr>\<rparr>"

definition start_edge_state :: UIState where
  "start_edge_state =
     \<lparr>fb_w = 2160, fb_h = 1080, scene = example_scene,
      car_space_transform = (\<lambda>p. p), sm = example_sm,
      status = STATUS_DISENGAGED, started_prev = False\<rparr>"

text \<open>The same message one tick later, the edge having been recorded.\<close>

definition after_edge_state :: UIState where
  "after_edge_state = start_edge_state\<lparr>started_prev := True\<rparr>"

text \<open>Identity intrinsics, and a trajectory of three samples that rises and falls.\<close>

definition example_K :: CameraIntrinsics where
  "example_K =
     \<lparr>FCAM_INTRINSIC_MATRIX = ((1, 0, 0), (0, 1, 0), (0, 0, 1)),
      ECAM_INTRINSIC_MATRIX = ((1, 0, 0), (0, 1, 0), (0, 0, 1))\<rparr>"

definition example_line :: XYZTData where
  "example_line = \<lparr>getX = [1, 2, 4], getY = [0, 0, 0], getZ = [0, 2, 0]\<rparr>"

text \<open>
  A trajectory whose second sample, raised by a vertical offset of 1, is the origin
  of the car frame.
\<close>

definition origin_line :: XYZTData where
  "origin_line = \<lparr>getX = [1, 0, 1], getY = [0, 0, 0], getZ = [0, - 1, 4]\<rparr>"

text \<open>
  A radar message with a lead ahead and one without, and the example state once the
  marker of the first lead has been written.
\<close>

definition lead_radar :: RadarState where
  "lead_radar =
     \<lparr>getLeadOne = \<lparr>getStatus = True, getDRel = 2, getYRel = 0\<rparr>,
      getLeadTwo = example_lead\<rparr>"



text \<open>
  A device that is awake with the ignition on, an idle thread pool, a state with the
  ignition off, a first-order filter, and states that ask for a given brightness.
\<close>

definition example_device :: Device where
  "example_device =
     \<lparr>awake = True, interactive_timeout = 0, ignition_on = True,
      offroad_brightness = 50, last_brightness = 0, brightness_filter = 50,
      brightness_future = None\<rparr>"

definition example_pool :: ThreadPool where
  "example_pool = \<lparr>started_tasks = [], running_tasks = {}\<rparr>"

definition ignition_off_state :: UIState where
  "ignition_off_state =
     start_edge_state\<lparr>scene := example_scene\<lparr>ignition := False, started := False\<rparr>\<rparr>"

definition example_filter :: "real \<Rightarrow> real \<Rightarrow> real" where
  "example_filter x u = x + (u - x) / 201"

definition brightness_state :: "int \<Rightarrow> UIState" where
  "brightness_state b = start_edge_state\<lparr>scene := example_scene\<lparr>screen_brightness := b\<rparr>\<rparr>"

text \<open>
  Two runs of the device: one brightness write started and still running; the same,
  followed by a second tick that asks for another value and by the return of the
  write.
\<close>

definition pending_run :: "Device \<times> ThreadPool" where
  "pending_run =
     device_run 20 example_filter (example_device, example_pool)
       [UpdateBrightness (brightness_state 50)]"

definition finished_run :: "Device \<times> ThreadPool" where
  "finished_run =
     device_run 20 example_filter (example_device, example_pool)
       [UpdateBrightness (brightness_state 50), UpdateBrightness (brightness_state 70),
        WriteFinished 0]"

text \<open>
  A state with unlimited path length and a lead at 2 m, and a trajectory that ends
  behind the car.
\<close>

definition reversing_state :: UIState where
  "reversing_state =
     start_edge_state
       \<lparr>scene := example_scene\<lparr>unlimited_road_ui_length := True\<rparr>,
        sm := example_sm\<lparr>radarState := lead_radar\<rparr>\<rparr>"

definition reversing_position :: XYZTData where
  "reversing_position = \<lparr>getX = [0, - 1 / 2, - 1], getY = [0, 0, 0], getZ = [0, 0, 0]\<rparr>"

text \<open>
  A stand-in for \<open>euler2rot\<close> in the examples: no rotation. A state on a tick with
  a fresh calibration message whose roll/pitch/yaw list is empty.
\<close>

definition example_euler2rot :: "vec3 \<Rightarrow> mat3" where
  "example_euler2rot v = ((1, 0, 0), (0, 1, 0), (0, 0, 1))"

definition calibration_state :: UIState where
  "calibration_state =
     start_edge_state
       \<lparr>sm := example_sm\<lparr>updated := (\<lambda>topic. topic = ''liveCalibration'')\<rparr>\<rparr>"

section \<open>Theorems\<close>

subsection \<open>C1: status after updateStatus\<close>

text \<open>
  On the tick of a start edge the transition statement runs after the status rule and
  overwrites its result: with \<open>started\<close> true, a fresh \<open>controlsState\<close> reporting
  PRE_ENABLED and \<open>started_prev\<close> false, the status after \<open>updateStatus\<close> is
  DISENGAGED, not OVERRIDE.
\<close>

theorem updateStatus_start_edge_counterexample:
  "started (scene start_edge_state) \<and>
   updated (sm start_edge_state) ''controlsState'' \<and>
   getState (controlsState (sm start_edge_state)) = PRE_ENABLED \<and>
   status (fst (updateStatus start_edge_state)) = STATUS_DISENGAGED \<and>
   status (fst (updateStatus start_edge_state)) \<noteq> STATUS_OVERRIDE"
  by (simp add: updateStatus_def updateStatus_controls_def updateStatus_transition_def
      start_edge_state_def example_scene_def example_sm_def Let_def)

text \<open>
  C1 (amended). On every tick on which \<open>started\<close> is true and a fresh
  \<open>controlsState\<close> message arrived: if the tick is a start edge
  (\<open>started_prev\<close> differs from \<open>started\<close>) or the frame counter is 1, the status
  after \<open>updateStatus\<close> is DISENGAGED; otherwise it is OVERRIDE if the reported
  state is PRE_ENABLED or OVERRIDING, else LATERAL_ACTIVE if the
  always-on-lateral-active flag is set, else ENGAGED if the message reports enabled,
  else DISENGAGED.
\<close>

theorem updateStatus_status:
  assumes "started (scene s)" and "updated (sm s) ''controlsState''"
  shows "status (fst (updateStatus s)) =
     (if started_prev s \<noteq> started (scene s) \<or> frame (sm s) = 1 then STATUS_DISENGAGED
      else if getState (controlsState (sm s)) = PRE_ENABLED
              \<or> getState (controlsState (sm s)) = OVERRIDING then STATUS_OVERRIDE
      else if always_on_lateral_active (scene s) then STATUS_LATERAL_ACTIVE
      else if getEnabled (controlsState (sm s)) then STATUS_ENGAGED
      else STATUS_DISENGAGED)"
  using assms
  by (simp add: updateStatus_def updateStatus_controls_def updateStatus_transition_def
      Let_def)

theorem updateStatus_status_witness:
  "started (scene after_edge_state) \<and>
   updated (sm after_edge_state) ''controlsState'' \<and>
   status (fst (updateStatus after_edge_state)) = STATUS_OVERRIDE"
proof -
  have h1: "started (scene after_edge_state)"
    by (simp add: after_edge_state_def start_edge_state_def example_scene_def example_sm_def)
  have h2: "updated (sm after_edge_state) ''controlsState''"
    by (simp add: after_edge_state_def start_edge_state_def example_scene_def example_sm_def)
  show ?thesis
    using h1 h2 updateStatus_status [OF h1 h2]
    by (simp add: after_edge_state_def start_edge_state_def example_scene_def example_sm_def)
qed

subsection \<open>Helper lemmas\<close>

text \<open>The facts that evaluate a projection in the example state.\<close>

lemmas example_projection =
  calib_frame_to_full_frame_def project_def matvecmul3_def example_K_def
  start_edge_state_def example_scene_def clip_region_def margin_def
  QRectF_contains_def qreal_div_def Let_def

lemma get_path_length_idx_loop_bound:
  "TRAJECTORY_SIZE \<le> length line_x \<Longrightarrow> max_idx < TRAJECTORY_SIZE \<Longrightarrow>
   \<exists>idx. get_path_length_idx_loop TRAJECTORY_SIZE line_x path_height i max_idx = Some idx
         \<and> idx < TRAJECTORY_SIZE"
proof (induction TRAJECTORY_SIZE line_x path_height i max_idx
       rule: get_path_length_idx_loop.induct)
  case (1 n line_x path_height i max_idx)
  show ?case
  proof (cases "i < n \<and> line_x ! i \<le> path_height")
    case True
    then have "\<exists>idx. get_path_length_idx_loop n line_x path_height (i + 1) i = Some idx
                 \<and> idx < n"
      using "1.IH" "1.prems" by simp
    then show ?thesis
      using True "1.prems" by (subst get_path_length_idx_loop.simps) simp
  next
    case False
    then show ?thesis
      using "1.prems" by (subst get_path_length_idx_loop.simps) auto
  qed
qed

lemma get_path_length_idx_defined:
  assumes "1 \<le> TRAJECTORY_SIZE" and "TRAJECTORY_SIZE \<le> length (getX line)"
  shows "\<exists>idx. get_path_length_idx TRAJECTORY_SIZE line path_height = Some idx
           \<and> idx < TRAJECTORY_SIZE"
  unfolding get_path_length_idx_def
  using assms by (intro get_path_length_idx_loop_bound) simp_all

lemma update_leads_iteration_defined:
  assumes "1 \<le> TRAJECTORY_SIZE"
    and "TRAJECTORY_SIZE \<le> length (getX line)"
    and "TRAJECTORY_SIZE \<le> length (getZ line)"
  shows "\<exists>s'. update_leads_iteration K TRAJECTORY_SIZE radar_state line i s = Some s'"
proof -
  let ?lead = "if i = 0 then getLeadOne radar_state else getLeadTwo radar_state"
  obtain idx where "get_path_length_idx TRAJECTORY_SIZE line (getDRel ?lead) = Some idx"
    and "idx < TRAJECTORY_SIZE"
    using get_path_length_idx_defined [OF assms(1,2)] by blast
  with assms(3) show ?thesis
    unfolding update_leads_iteration_def Let_def
    by (cases "getStatus ?lead") simp_all
qed

lemma update_leads_defined:
  assumes "1 \<le> TRAJECTORY_SIZE"
    and "TRAJECTORY_SIZE \<le> length (getX line)"
    and "TRAJECTORY_SIZE \<le> length (getZ line)"
  shows "\<exists>s'. update_leads K TRAJECTORY_SIZE radar_state line s = Some s'"
proof -
  obtain s1 where s1: "update_leads_iteration K TRAJECTORY_SIZE radar_state line 0 s = Some s1"
    using update_leads_iteration_defined [OF assms] by blast
  obtain s2 where "update_leads_iteration K TRAJECTORY_SIZE radar_state line 1 s1 = Some s2"
    using update_leads_iteration_defined [OF assms] by blast
  with s1 show ?thesis by (simp add: update_leads_def)
qed



lemma example_path_idx: "get_path_length_idx 3 example_line 2 = Some 1"
  by (simp add: get_path_length_idx_def example_line_def get_path_length_idx_loop.simps)




subsection \<open>The projection of the origin\<close>

text \<open>
  Whatever the calibration and the intrinsics, the origin of the car frame projects
  to 0 / 0 in both coordinates; a rectangle with sides accepts the NaN point, and so
  does \<open>calib_frame_to_full_frame\<close> when \<open>car_space_transform\<close> maps NaN to NaN.
\<close>

lemma project_origin:
  "project K s 0 0 0 = car_space_transform s \<lparr>xp = NaN, yp = NaN\<rparr>"
  by (simp add: project_def matvecmul3_def qreal_div_def Let_def split: prod.splits)

lemma QRectF_contains_NaN:
  "rect_w rect \<noteq> 0 \<Longrightarrow> rect_h rect \<noteq> 0 \<Longrightarrow>
   QRectF_contains rect \<lparr>xp = NaN, yp = NaN\<rparr>"
  by (simp add: QRectF_contains_def Let_def)

lemma calib_frame_to_full_frame_origin:
  assumes "car_space_transform s \<lparr>xp = NaN, yp = NaN\<rparr> = \<lparr>xp = NaN, yp = NaN\<rparr>"
    and "fb_w s \<noteq> - 1000" and "fb_h s \<noteq> - 1000"
  shows "calib_frame_to_full_frame K s 0 0 0 out = (True, \<lparr>xp = NaN, yp = NaN\<rparr>)"
proof -
  have "rect_w (clip_region s) \<noteq> 0" and "rect_h (clip_region s) \<noteq> 0"
    using assms(2,3) by (simp_all add: clip_region_def margin_def)
  then have "QRectF_contains (clip_region s) \<lparr>xp = NaN, yp = NaN\<rparr>"
    by (rule QRectF_contains_NaN)
  then show ?thesis
    using assms(1) by (simp add: calib_frame_to_full_frame_def project_origin)
qed

subsection \<open>C5: no inversion of the left boundary\<close>

text \<open>
  C5. The claim: with \<open>allow_invert = false\<close> the accepted left points have screen-y
  values that never increase. The code at the trajectory \<open>origin_line\<close>, with no
  lateral offset and a vertical offset of 1: the second sample is the origin of the
  car frame, both quotients of its projection are 0 / 0, and the NaN point passes the
  clip test. It is accepted after a left point of y 1, since NaN is not greater than
  1, and the third sample, of y 5, is accepted after it, since 5 is not greater than
  NaN. The accepted left points have the screen-y values 1, NaN, 5.
\<close>

theorem update_line_data_inversion_after_nan:
  "update_line_data_points example_K start_edge_state origin_line 0 1 2 False
     = Some ([\<lparr>xp = Finite 0, yp = Finite 1\<rparr>, \<lparr>xp = NaN, yp = NaN\<rparr>,
              \<lparr>xp = Finite 0, yp = Finite 5\<rparr>],
             [\<lparr>xp = Finite 0, yp = Finite 5\<rparr>, \<lparr>xp = NaN, yp = NaN\<rparr>,
              \<lparr>xp = Finite 0, yp = Finite 1\<rparr>])
   \<and> qreal_less (Finite 1) (Finite 5)"
  by (simp add: update_line_data_points_def update_line_data_loop.simps origin_line_def
      example_projection)

subsection \<open>C6: the polygon lies in the clip region\<close>

text \<open>
  C6. The claim: every point of a polygon produced by \<open>update_line_data\<close> lies in
  the clip rectangle, and the polygon has at most twice as many points as there are
  samples whose two projections land in the clip region. The code at the trajectory
  \<open>origin_line\<close>, with no lateral offset and a vertical offset of 1: the projection
  of the second sample is the point (NaN, NaN), which the clip test accepts, and the
  polygon holds it twice. The polygon has 6 points; 2 of the 3 samples project into
  the clip rectangle.
\<close>

theorem update_line_data_nan_point:
  "project example_K start_edge_state 0 0 0 = \<lparr>xp = NaN, yp = NaN\<rparr>
   \<and> QRectF_contains (clip_region start_edge_state) \<lparr>xp = NaN, yp = NaN\<rparr>
   \<and> update_line_data example_K start_edge_state origin_line 0 1 2 True
     = Some [\<lparr>xp = Finite 0, yp = Finite 1\<rparr>, \<lparr>xp = NaN, yp = NaN\<rparr>,
             \<lparr>xp = Finite 0, yp = Finite 5\<rparr>, \<lparr>xp = Finite 0, yp = Finite 5\<rparr>,
             \<lparr>xp = NaN, yp = NaN\<rparr>, \<lparr>xp = Finite 0, yp = Finite 1\<rparr>]"
  by (simp add: update_line_data_def update_line_data_points_def
      update_line_data_loop.simps origin_line_def example_projection)

subsection \<open>C8: lead markers\<close>




subsection \<open>C9: the path length index is in bounds\<close>

text \<open>
  C9. For every trajectory, of \<open>TRAJECTORY_SIZE\<close> samples, and every path height,
  \<open>get_path_length_idx\<close> returns an index between 0 and \<open>TRAJECTORY_SIZE - 1\<close>;
  the index is within the z list of the trajectory, and \<open>update_leads\<close> reads
  nothing out of bounds.
\<close>

theorem get_path_length_idx_in_bounds:
  assumes "1 \<le> TRAJECTORY_SIZE"
    and "length (getX line) = TRAJECTORY_SIZE"
    and "length (getZ line) = TRAJECTORY_SIZE"
  shows "(\<exists>idx. get_path_length_idx TRAJECTORY_SIZE line path_height = Some idx
            \<and> idx \<le> TRAJECTORY_SIZE - 1 \<and> idx < length (getZ line))
       \<and> update_leads K TRAJECTORY_SIZE radar_state line s \<noteq> None"
proof -
  from assms obtain idx where
    "get_path_length_idx TRAJECTORY_SIZE line path_height = Some idx"
    and "idx < TRAJECTORY_SIZE"
    using get_path_length_idx_defined [of TRAJECTORY_SIZE line path_height] by auto
  moreover have "update_leads K TRAJECTORY_SIZE radar_state line s \<noteq> None"
    using update_leads_defined [of TRAJECTORY_SIZE line K radar_state s] assms by auto
  ultimately show ?thesis
    using assms by auto
qed

theorem get_path_length_idx_in_bounds_witness:
  "1 \<le> (3::nat) \<and> length (getX example_line) = 3 \<and> length (getZ example_line) = 3
   \<and> get_path_length_idx 3 example_line 2 = Some 1
   \<and> update_leads example_K 3 lead_radar example_line start_edge_state \<noteq> None"
proof -
  have h1: "1 \<le> (3::nat)" by simp
  have h2: "length (getX example_line) = 3" by (simp add: example_line_def)
  have h3: "length (getZ example_line) = 3" by (simp add: example_line_def)
  show ?thesis
    using h2 h3 example_path_idx
      get_path_length_idx_in_bounds [OF h1 h2 h3, of 2 example_K lead_radar start_edge_state]
    by simp
qed


subsection \<open>C10: the out parameter of calib\_frame\_to\_full\_frame\<close>

text \<open>
  C10. \<open>calib_frame_to_full_frame\<close> returns true exactly when the projected point
  is in the clip region; when it returns false the out parameter is unchanged, and
  when it returns true the out parameter holds the projected point.
\<close>

theorem calib_frame_to_full_frame_out:
  "fst (calib_frame_to_full_frame K s in_x in_y in_z out)
     = QRectF_contains (clip_region s) (project K s in_x in_y in_z)
   \<and> (\<not> fst (calib_frame_to_full_frame K s in_x in_y in_z out) \<longrightarrow>
        snd (calib_frame_to_full_frame K s in_x in_y in_z out) = out)
   \<and> (fst (calib_frame_to_full_frame K s in_x in_y in_z out) \<longrightarrow>
        snd (calib_frame_to_full_frame K s in_x in_y in_z out) = project K s in_x in_y in_z)"
  by (simp add: calib_frame_to_full_frame_def Let_def)

theorem calib_frame_to_full_frame_out_witness:
  "\<not> fst (calib_frame_to_full_frame example_K start_edge_state 1 5000 1 \<lparr>xp = Finite 7, yp = Finite 7\<rparr>)
   \<and> snd (calib_frame_to_full_frame example_K start_edge_state 1 5000 1 \<lparr>xp = Finite 7, yp = Finite 7\<rparr>)
       = \<lparr>xp = Finite 7, yp = Finite 7\<rparr>
   \<and> fst (calib_frame_to_full_frame example_K start_edge_state 1 0 1 \<lparr>xp = Finite 7, yp = Finite 7\<rparr>)
   \<and> snd (calib_frame_to_full_frame example_K start_edge_state 1 0 1 \<lparr>xp = Finite 7, yp = Finite 7\<rparr>)
       = \<lparr>xp = Finite 0, yp = Finite 1\<rparr>"
proof -
  have out: "\<not> QRectF_contains (clip_region start_edge_state)
               (project example_K start_edge_state 1 5000 1)"
    by (simp add: example_projection)
  have inside: "QRectF_contains (clip_region start_edge_state)
               (project example_K start_edge_state 1 0 1)"
    by (simp add: example_projection)
  have p: "project example_K start_edge_state 1 0 1 = \<lparr>xp = Finite 0, yp = Finite 1\<rparr>"
    by (simp add: example_projection)
  show ?thesis
    using out inside p
      calib_frame_to_full_frame_out
        [of example_K start_edge_state 1 5000 1 "\<lparr>xp = Finite 7, yp = Finite 7\<rparr>"]
      calib_frame_to_full_frame_out
        [of example_K start_edge_state 1 0 1 "\<lparr>xp = Finite 7, yp = Finite 7\<rparr>"]
    by simp
qed

subsection \<open>Helper lemmas on the device\<close>

lemma setAwake_fields:
  "interactive_timeout (fst (setAwake on d)) = interactive_timeout d"
  "ignition_on (fst (setAwake on d)) = ignition_on d"
  "brightness_future (fst (setAwake on d)) = brightness_future d"
  "count_list (snd (setAwake on d)) (Emit InteractiveTimeout) = 0"
  by (simp_all add: setAwake_def)

lemma updateWakefulness_edge:
  assumes "ignition_on d" and "\<not> ignition (scene s)"
  shows "interactive_timeout (fst (updateWakefulness UI_FREQ s d)) = 30 * UI_FREQ"
    and "ignition_on (fst (updateWakefulness UI_FREQ s d)) = False"
    and "count_list (snd (updateWakefulness UI_FREQ s d)) (Emit InteractiveTimeout) = 0"
  using assms
  by (simp_all add: updateWakefulness_def Let_def setAwake_fields resetInteractiveTimeout_def)

lemma updateWakefulness_no_edge:
  assumes "\<not> (\<not> ignition (scene s) \<and> ignition_on d)"
  shows "interactive_timeout (fst (updateWakefulness UI_FREQ s d))
           = (if 0 < interactive_timeout d then interactive_timeout d - 1
              else interactive_timeout d)"
    and "ignition_on (fst (updateWakefulness UI_FREQ s d)) = ignition (scene s)"
    and "count_list (snd (updateWakefulness UI_FREQ s d)) (Emit InteractiveTimeout)
           = (if interactive_timeout d = 1 then 1 else 0)"
  using assms
  by (auto simp: updateWakefulness_def Let_def setAwake_fields)

lemma updateWakefulness_brightness_future:
  "brightness_future (fst (updateWakefulness UI_FREQ s d)) = brightness_future d"
  by (simp add: updateWakefulness_def Let_def setAwake_fields resetInteractiveTimeout_def)

lemma wakefulness_run_Cons:
  "wakefulness_run UI_FREQ (s # ss) d
     = wakefulness_run UI_FREQ ss (fst (updateWakefulness UI_FREQ s d))"
  by (simp add: wakefulness_run_def)

lemma wakefulness_run_Nil: "wakefulness_run UI_FREQ [] d = d"
  by (simp add: wakefulness_run_def)

lemma wakefulness_run_countdown:
  "no_ignition_off_edge (ignition_on d) ss \<Longrightarrow> 0 \<le> interactive_timeout d \<Longrightarrow>
   k \<le> length ss \<Longrightarrow>
   interactive_timeout (wakefulness_run UI_FREQ (take k ss) d)
     = max 0 (interactive_timeout d - int k)
   \<and> (k < length ss \<longrightarrow>
        \<not> (\<not> ignition (scene (ss ! k))
           \<and> ignition_on (wakefulness_run UI_FREQ (take k ss) d)))"
proof (induction ss arbitrary: d k)
  case Nil
  then show ?case by (simp add: wakefulness_run_Nil)
next
  case (Cons s ss)
  from Cons.prems(1) have ne: "\<not> (\<not> ignition (scene s) \<and> ignition_on d)"
    and rest: "no_ignition_off_edge (ignition (scene s)) ss"
    by simp_all
  let ?d = "fst (updateWakefulness UI_FREQ s d)"
  note step = updateWakefulness_no_edge [OF ne, of UI_FREQ]
  show ?case
  proof (cases k)
    case 0
    with ne show ?thesis
      using Cons.prems(2) by (simp add: wakefulness_run_Nil)
  next
    case (Suc j)
    have "no_ignition_off_edge (ignition_on ?d) ss"
      using rest step(2) by simp
    moreover have "0 \<le> interactive_timeout ?d"
      using Cons.prems(2) step(1) by simp
    moreover have "j \<le> length ss"
      using Cons.prems(3) Suc by simp
    ultimately have IH: "interactive_timeout (wakefulness_run UI_FREQ (take j ss) ?d)
        = max 0 (interactive_timeout ?d - int j)
      \<and> (j < length ss \<longrightarrow>
           \<not> (\<not> ignition (scene (ss ! j))
              \<and> ignition_on (wakefulness_run UI_FREQ (take j ss) ?d)))"
      by (rule Cons.IH)
    have "max 0 (interactive_timeout ?d - int j) = max 0 (interactive_timeout d - int k)"
      using Cons.prems(2) step(1) Suc by auto
    with IH show ?thesis
      using Suc by (simp add: wakefulness_run_Cons)
  qed
qed

lemma no_ignition_off_edge_replicate:
  "no_ignition_off_edge False (replicate n ignition_off_state)"
  by (induction n) (simp_all add: ignition_off_state_def)


lemma brightness_value_filter [simp]:
  "brightness_value s (d\<lparr>brightness_filter := x\<rparr>) filtered = brightness_value s d filtered"
  by (simp add: brightness_value_def)

lemma updateBrightness_eq:
  "updateBrightness filter_update s (d, pool) =
     (let filtered = filter_update (brightness_filter d) (clipped_brightness s d);
          brightness = brightness_value s d filtered
      in if brightness \<noteq> last_brightness d \<and> \<not> isRunning pool (brightness_future d) then
           (d\<lparr>brightness_filter := filtered,
              brightness_future := Some (length (started_tasks pool)),
              last_brightness := brightness\<rparr>,
            pool\<lparr>started_tasks := started_tasks pool @ [brightness],
                 running_tasks := insert (length (started_tasks pool)) (running_tasks pool)\<rparr>)
         else (d\<lparr>brightness_filter := filtered\<rparr>, pool))"
  by (simp add: updateBrightness_def Let_def QtConcurrent_run_def)

lemma single_flight_not_running:
  "single_flight (d, pool) \<Longrightarrow> \<not> isRunning pool (brightness_future d) \<Longrightarrow>
   running_tasks pool = {}"
  by (auto simp: single_flight_def isRunning_def split: option.splits)

lemma single_flight_isRunning:
  "single_flight (d, pool) \<Longrightarrow>
   isRunning pool (brightness_future d) = (running_tasks pool \<noteq> {})"
  by (auto simp: single_flight_def isRunning_def split: option.splits)

lemma single_flight_updateBrightness:
  assumes "single_flight dp"
  shows "single_flight (updateBrightness filter_update s dp)"
proof -
  obtain d pool where dp: "dp = (d, pool)" by (cases dp)
  let ?filtered = "filter_update (brightness_filter d) (clipped_brightness s d)"
  let ?b = "brightness_value s d ?filtered"
  show ?thesis
  proof (cases "?b \<noteq> last_brightness d \<and> \<not> isRunning pool (brightness_future d)")
    case True
    then have "running_tasks pool = {}"
      using assms dp single_flight_not_running by blast
    with True show ?thesis
      by (simp add: dp updateBrightness_eq Let_def single_flight_def)
  next
    case False
    have "single_flight (d\<lparr>brightness_filter := ?filtered\<rparr>, pool)"
      using assms dp by (simp add: single_flight_def)
    with False show ?thesis
      by (auto simp: dp updateBrightness_eq Let_def)
  qed
qed

lemma single_flight_step:
  assumes "single_flight dp"
  shows "single_flight (device_step UI_FREQ filter_update dp ev)"
proof (cases ev)
  case (UpdateBrightness s)
  then show ?thesis using assms by (simp add: single_flight_updateBrightness)
next
  case (UpdateWakefulness s)
  then show ?thesis
    using assms
    by (auto simp: single_flight_def updateWakefulness_brightness_future
        split: option.splits)
next
  case (WriteFinished task)
  then show ?thesis
    using assms by (auto simp: single_flight_def task_finished_def)
qed

lemma single_flight_run:
  "single_flight dp \<Longrightarrow> single_flight (device_run UI_FREQ filter_update dp evs)"
  unfolding device_run_def
  by (induction evs arbitrary: dp) (simp_all add: single_flight_step)

lemma single_flight_card:
  assumes "single_flight dp"
  shows "finite (running_tasks (snd dp)) \<and> card (running_tasks (snd dp)) \<le> 1"
proof (cases "brightness_future (fst dp)")
  case None
  with assms show ?thesis by (simp add: single_flight_def)
next
  case (Some task)
  with assms have sub: "running_tasks (snd dp) \<subseteq> {task}"
    by (simp add: single_flight_def)
  then have "finite (running_tasks (snd dp))"
    by (rule finite_subset) simp
  moreover have "card (running_tasks (snd dp)) \<le> card {task}"
    using sub by (intro card_mono) simp_all
  ultimately show ?thesis by simp
qed


lemmas example_brightness =
  device_run_def updateBrightness_eq Let_def example_device_def example_pool_def
  brightness_state_def brightness_value_def isRunning_def task_finished_def
  start_edge_state_def example_scene_def

lemma pending_run_facts:
  "awake (fst pending_run)" "last_brightness (fst pending_run) = 50"
  "isRunning (snd pending_run) (brightness_future (fst pending_run))"
  "started_tasks (snd pending_run) = [50]"
  by (simp_all add: pending_run_def example_brightness)

lemma finished_run_facts:
  "awake (fst finished_run)" "last_brightness (fst finished_run) = 50"
  "\<not> isRunning (snd finished_run) (brightness_future (fst finished_run))"
  "started_tasks (snd finished_run) = [50]"
  by (simp_all add: finished_run_def example_brightness)

lemma brightness_state_value:
  "awake d \<Longrightarrow> brightness_value (brightness_state 70) d filtered = 70"
  by (simp add: brightness_value_def brightness_state_def example_scene_def)


subsection \<open>C2: one brightness write at a time\<close>

text \<open>
  C2. Start from a device with at most the write of \<open>brightness_future\<close> running
  (none, when the device is constructed), and let any sequence of calls of
  \<open>updateBrightness\<close> and \<open>updateWakefulness\<close> and of returns of writes pass. Then
  at most one write is running, and the next call of \<open>updateBrightness\<close> starts a
  write if and only if the brightness it computes differs from \<open>last_brightness\<close>
  and no write is running. If it starts one, that write carries the computed value,
  is the only one running, and \<open>last_brightness\<close> becomes that value. If it starts
  none, the thread pool and \<open>last_brightness\<close> are unchanged: a value that differs
  but meets a running write is dropped and, \<open>last_brightness\<close> still differing, is
  written by a later call once the write has returned.
\<close>

theorem updateBrightness_single_flight:
  assumes "single_flight dp"
    and "dp' = device_run UI_FREQ filter_update dp evs"
    and "filtered = filter_update (brightness_filter (fst dp')) (clipped_brightness s (fst dp'))"
    and "brightness = brightness_value s (fst dp') filtered"
    and "dp'' = updateBrightness filter_update s dp'"
  shows "finite (running_tasks (snd dp')) \<and> card (running_tasks (snd dp')) \<le> 1
       \<and> isRunning (snd dp') (brightness_future (fst dp')) = (running_tasks (snd dp') \<noteq> {})
       \<and> (if brightness \<noteq> last_brightness (fst dp')
              \<and> \<not> isRunning (snd dp') (brightness_future (fst dp'))
           then started_tasks (snd dp'') = started_tasks (snd dp') @ [brightness]
                \<and> running_tasks (snd dp'') = {length (started_tasks (snd dp'))}
                \<and> brightness_future (fst dp'') = Some (length (started_tasks (snd dp')))
                \<and> last_brightness (fst dp'') = brightness
           else snd dp'' = snd dp'
                \<and> brightness_future (fst dp'') = brightness_future (fst dp')
                \<and> last_brightness (fst dp'') = last_brightness (fst dp'))
       \<and> finite (running_tasks (snd dp'')) \<and> card (running_tasks (snd dp'')) \<le> 1"
proof -
  obtain d pool where dp': "dp' = (d, pool)" by (cases dp')
  have inv: "single_flight dp'"
    using assms(1,2) by (simp add: single_flight_run)
  have inv': "single_flight dp''"
    using inv assms(5) by (simp add: single_flight_updateBrightness)
  have f: "filtered = filter_update (brightness_filter d) (clipped_brightness s d)"
    and b: "brightness = brightness_value s d filtered"
    using assms(3,4) dp' by simp_all
  have dp'': "dp'' = (if brightness \<noteq> last_brightness d
                        \<and> \<not> isRunning pool (brightness_future d) then
           (d\<lparr>brightness_filter := filtered,
              brightness_future := Some (length (started_tasks pool)),
              last_brightness := brightness\<rparr>,
            pool\<lparr>started_tasks := started_tasks pool @ [brightness],
                 running_tasks := insert (length (started_tasks pool)) (running_tasks pool)\<rparr>)
         else (d\<lparr>brightness_filter := filtered\<rparr>, pool))"
    using assms(5) f b by (simp add: dp' updateBrightness_eq Let_def)
  have step: "if brightness \<noteq> last_brightness (fst dp')
              \<and> \<not> isRunning (snd dp') (brightness_future (fst dp'))
           then started_tasks (snd dp'') = started_tasks (snd dp') @ [brightness]
                \<and> running_tasks (snd dp'') = {length (started_tasks (snd dp'))}
                \<and> brightness_future (fst dp'') = Some (length (started_tasks (snd dp')))
                \<and> last_brightness (fst dp'') = brightness
           else snd dp'' = snd dp'
                \<and> brightness_future (fst dp'') = brightness_future (fst dp')
                \<and> last_brightness (fst dp'') = last_brightness (fst dp')"
  proof (cases "brightness \<noteq> last_brightness d \<and> \<not> isRunning pool (brightness_future d)")
    case True
    then have "running_tasks pool = {}"
      using inv dp' single_flight_not_running by blast
    with True show ?thesis by (simp add: dp' dp'')
  next
    case False
    then show ?thesis by (auto simp: dp' dp'')
  qed
  have running: "isRunning (snd dp') (brightness_future (fst dp'))
      = (running_tasks (snd dp') \<noteq> {})"
    using inv by (simp add: dp' single_flight_isRunning)
  from single_flight_card [OF inv] single_flight_card [OF inv'] running step
  show ?thesis by blast
qed

theorem updateBrightness_single_flight_witness:
  "single_flight (example_device, example_pool)
   \<and> started_tasks (snd pending_run) = [50]
   \<and> started_tasks (snd (updateBrightness example_filter (brightness_state 70) pending_run))
       = [50]
   \<and> last_brightness (fst (updateBrightness example_filter (brightness_state 70) pending_run))
       = 50
   \<and> started_tasks (snd (updateBrightness example_filter (brightness_state 70) finished_run))
       = [50, 70]"
proof -
  have sf: "single_flight (example_device, example_pool)"
    by (simp add: single_flight_def example_pool_def)
  note p = updateBrightness_single_flight
             [OF sf pending_run_def refl refl refl, of "brightness_state 70"]
  note f = updateBrightness_single_flight
             [OF sf finished_run_def refl refl refl, of "brightness_state 70"]
  have dropped:
    "started_tasks (snd (updateBrightness example_filter (brightness_state 70) pending_run))
       = [50]
     \<and> last_brightness
         (fst (updateBrightness example_filter (brightness_state 70) pending_run)) = 50"
    using p pending_run_facts by (simp add: brightness_state_value)
  have sent:
    "started_tasks (snd (updateBrightness example_filter (brightness_state 70) finished_run))
       = [50, 70]"
    using f finished_run_facts by (simp add: brightness_state_value)
  from sf pending_run_facts(4) dropped sent show ?thesis by blast
qed

subsection \<open>C3: the interactive timeout after the ignition goes off\<close>

text \<open>
  C3. Let a call of \<open>updateWakefulness\<close> see the ignition go off, with
  \<open>UI_FREQ\<close> positive, and let calls follow none of which sees the ignition go off
  again. After the first call the counter is \<open>30 * UI_FREQ\<close> and no
  \<open>interactiveTimeout\<close> has been emitted. After \<open>k\<close> further calls the counter is
  \<open>30 * UI_FREQ - k\<close>, one less per call, until it is 0, where it stays. The call
  number \<open>30 * UI_FREQ\<close>, on which the counter reaches 0, emits
  \<open>interactiveTimeout\<close> once; no other call emits it.
\<close>

theorem updateWakefulness_countdown:
  assumes "0 < UI_FREQ" and "ignition_on d" and "\<not> ignition (scene s0)"
    and "d1 = fst (updateWakefulness UI_FREQ s0 d)"
    and "no_ignition_off_edge (ignition_on d1) ss"
  shows "interactive_timeout d1 = 30 * UI_FREQ
       \<and> count_list (snd (updateWakefulness UI_FREQ s0 d)) (Emit InteractiveTimeout) = 0
       \<and> (\<forall>k \<le> length ss.
            interactive_timeout (wakefulness_run UI_FREQ (take k ss) d1)
              = max 0 (30 * UI_FREQ - int k))
       \<and> (\<forall>k < length ss.
            count_list (snd (updateWakefulness UI_FREQ (ss ! k)
                               (wakefulness_run UI_FREQ (take k ss) d1)))
              (Emit InteractiveTimeout)
              = (if int k + 1 = 30 * UI_FREQ then 1 else 0))"
proof -
  note edge = updateWakefulness_edge [OF assms(2,3), of UI_FREQ]
  have t1: "interactive_timeout d1 = 30 * UI_FREQ"
    using edge(1) assms(4) by simp
  then have nonneg: "0 \<le> interactive_timeout d1"
    using assms(1) by simp
  have run: "interactive_timeout (wakefulness_run UI_FREQ (take k ss) d1)
        = max 0 (30 * UI_FREQ - int k)
      \<and> (k < length ss \<longrightarrow>
           \<not> (\<not> ignition (scene (ss ! k))
              \<and> ignition_on (wakefulness_run UI_FREQ (take k ss) d1)))"
    if "k \<le> length ss" for k
    using wakefulness_run_countdown [OF assms(5) nonneg that, of UI_FREQ] t1 by simp
  have emit: "count_list (snd (updateWakefulness UI_FREQ (ss ! k)
                               (wakefulness_run UI_FREQ (take k ss) d1)))
              (Emit InteractiveTimeout)
              = (if int k + 1 = 30 * UI_FREQ then 1 else 0)"
    if "k < length ss" for k
  proof -
    from that have "k \<le> length ss" by simp
    note r = run [OF this]
    from r that have ne: "\<not> (\<not> ignition (scene (ss ! k))
              \<and> ignition_on (wakefulness_run UI_FREQ (take k ss) d1))"
      by blast
    from r have "interactive_timeout (wakefulness_run UI_FREQ (take k ss) d1) = 1
        \<longleftrightarrow> int k + 1 = 30 * UI_FREQ"
      by auto
    then show ?thesis
      using updateWakefulness_no_edge(3) [OF ne, of UI_FREQ] by simp
  qed
  show ?thesis
    using t1 edge(3) run emit by blast
qed

theorem updateWakefulness_countdown_witness:
  "(0::int) < 1 \<and> ignition_on example_device \<and> \<not> ignition (scene ignition_off_state)
   \<and> interactive_timeout (fst (updateWakefulness 1 ignition_off_state example_device)) = 30
   \<and> interactive_timeout
        (wakefulness_run 1 (replicate 30 ignition_off_state)
           (fst (updateWakefulness 1 ignition_off_state example_device))) = 0
   \<and> count_list
        (snd (updateWakefulness 1 ignition_off_state
               (wakefulness_run 1 (replicate 29 ignition_off_state)
                  (fst (updateWakefulness 1 ignition_off_state example_device)))))
        (Emit InteractiveTimeout) = 1"
proof -
  let ?d1 = "fst (updateWakefulness 1 ignition_off_state example_device)"
  let ?ss = "replicate 30 ignition_off_state"
  have h1: "(0::int) < 1" by simp
  have h2: "ignition_on example_device" by (simp add: example_device_def)
  have h3: "\<not> ignition (scene ignition_off_state)" by (simp add: ignition_off_state_def)
  have off: "ignition_on ?d1 = False"
    using updateWakefulness_edge(2) [OF h2 h3] by simp
  have h5: "no_ignition_off_edge (ignition_on ?d1) ?ss"
    unfolding off by (rule no_ignition_off_edge_replicate)
  note c = updateWakefulness_countdown [OF h1 h2 h3 refl h5]
  from c have a: "interactive_timeout ?d1 = 30" by simp
  from c have "\<forall>k \<le> length ?ss.
      interactive_timeout (wakefulness_run 1 (take k ?ss) ?d1) = max 0 (30 * 1 - int k)"
    by blast
  then have "interactive_timeout (wakefulness_run 1 (take 30 ?ss) ?d1) = max 0 (30 * 1 - int 30)"
    by simp
  then have b: "interactive_timeout (wakefulness_run 1 ?ss ?d1) = 0" by simp
  from c have "\<forall>k < length ?ss.
      count_list (snd (updateWakefulness 1 (?ss ! k) (wakefulness_run 1 (take k ?ss) ?d1)))
        (Emit InteractiveTimeout) = (if int k + 1 = 30 * 1 then 1 else 0)"
    by blast
  then have "count_list (snd (updateWakefulness 1 (?ss ! 29)
         (wakefulness_run 1 (take 29 ?ss) ?d1))) (Emit InteractiveTimeout)
       = (if int 29 + 1 = 30 * 1 then 1 else 0)"
    by simp
  then have e: "count_list (snd (updateWakefulness 1 ignition_off_state
         (wakefulness_run 1 (replicate 29 ignition_off_state) ?d1))) (Emit InteractiveTimeout) = 1"
    by (simp add: take_replicate)
  from h1 h2 h3 a b e show ?thesis by blast
qed

subsection \<open>C4: the path is shortened behind a lead\<close>

text \<open>
  Where \<open>max_distance\<close> is not negative the reduction behind a lead is defined and
  is the value \<open>leadDistance * 2 - min (leadDistance * 0.7) 10\<close>, raised to 0 and
  lowered to \<open>max_distance\<close>.
\<close>

lemma std_clamp_floor:
  "0 \<le> hi \<Longrightarrow> std_clamp v 0 hi = Some (min hi (max 0 v))"
  by (simp add: std_clamp_def min_def max_def)

lemma update_model_lead_distance_defined:
  assumes "getStatus (getLeadOne (radarState (sm s)))" and "0 \<le> max_distance"
    and "leadDistance = getDRel (getLeadOne (radarState (sm s)))"
  shows "update_model_lead_distance s max_distance
       = Some (min max_distance (max 0 (leadDistance * 2 - min (leadDistance * 0.7) 10)))"
proof -
  have "leadDistance * 2 * 0.35 = leadDistance * 0.7" by simp
  then show ?thesis
    using assms by (simp add: update_model_lead_distance_def Let_def std_clamp_floor)
qed

text \<open>
  C4. The claim: whenever the first lead has a valid status, the \<open>max_distance\<close> of
  the path is floored at 0 and does not exceed the \<open>max_distance\<close> computed before.
  The code with unlimited path length, a trajectory whose last x is \<open>-1\<close> and a lead
  at 2 m: \<open>max_distance\<close> is the last x, \<open>-1\<close>, taken without the clamp to
  \<open>MIN_DRAW_DISTANCE\<close> and \<open>MAX_DRAW_DISTANCE\<close> of the other branch, and
  \<open>std::clamp\<close> is called with the value 2.6, the lower bound 0 and the upper bound
  \<open>-1\<close>. The upper bound is below the lower one: the call has no defined result, and
  neither has the \<open>max_idx\<close> of the path.
\<close>

theorem update_model_negative_distance:
  "getStatus (getLeadOne (radarState (sm reversing_state)))
   \<and> unlimited_road_ui_length (scene reversing_state)
   \<and> update_model_max_distance 3 10 100 reversing_state
        (update_model_plan_position 3 \<lparr>getPosition = reversing_position\<rparr>
           \<lparr>getPlanPosition = reversing_position\<rparr>) = Some (- 1)
   \<and> update_model_lead_distance reversing_state (- 1) = std_clamp (26 / 10) 0 (- 1)
   \<and> std_clamp (26 / 10) 0 (- 1) = None
   \<and> update_model_path_idx 3 10 100 reversing_state \<lparr>getPosition = reversing_position\<rparr>
        \<lparr>getPlanPosition = reversing_position\<rparr> = None"
  by (simp add: update_model_path_idx_def update_model_max_distance_def
      update_model_plan_position_def update_model_lead_distance_def std_clamp_def
      reversing_state_def reversing_position_def lead_radar_def example_sm_def
      example_scene_def start_edge_state_def Let_def)

subsection \<open>C7: a calibration message with a malformed list\<close>

text \<open>
  With two lists of 3 elements the block is defined and sets both flags from the
  message; with a list of another length it is not.
\<close>

lemma update_state_liveCalibration_defined:
  assumes "updated (sm s) ''liveCalibration''"
  shows "(update_state_liveCalibration euler2rot s \<noteq> None)
       = (length (getRpyCalib (liveCalibration (sm s))) = 3
          \<and> length (getWideFromDeviceEuler (liveCalibration (sm s))) = 3)"
  using assms by (simp add: update_state_liveCalibration_def Let_def)

text \<open>
  C7. The claim: a calibration message whose roll/pitch/yaw list does not have 3
  elements leaves the transform unset for that tick and raises no error, the validity
  flags telling the readers of the scene so. The code at a fresh message with an
  empty roll/pitch/yaw list, a wide-camera list of 3 elements and the status
  CALIBRATED: the list is not copied into \<open>rpy\<close>, and \<open>euler2rot\<close> is called on
  \<open>rpy\<close> all the same, before any flag is set. The vector was never assigned: the
  call has no defined result, and neither have the transforms and the flags written
  from it.
\<close>

theorem update_state_liveCalibration_unassigned:
  "updated (sm calibration_state) ''liveCalibration''
   \<and> getRpyCalib (liveCalibration (sm calibration_state)) = []
   \<and> getWideFromDeviceEuler (liveCalibration (sm calibration_state)) = [0, 0, 0]
   \<and> getCalStatus (liveCalibration (sm calibration_state)) = CALIBRATED
   \<and> update_state_liveCalibration example_euler2rot calibration_state = None"
  by (simp add: update_state_liveCalibration_def calibration_state_def example_sm_def
      Let_def)

end
